theory Spec2Isabelle
  imports Main
begin

section \<open>The spa manager of geckolib (async\_spa\_manager.py)\<close>

text \<open>
  The class \<open>GeckoAsyncSpaMan\<close> keeps the lifecycle state of one connection to a spa.
  Its collaborators (the locator, the session, the facade and the abstract handler of
  the derived class) live in other modules; the manager talks to them through four
  calls only, and they talk back through the callback \<open>_handle_event\<close>.  The model
  below keeps the manager's fields in a record, passes it explicitly through every
  method, returns a raised exception as a value, and writes every call that leaves the
  manager into a log, oldest call first.
\<close>

subsection \<open>Enumerations\<close>

text \<open>The nine members of \<open>GeckoSpaState\<close> that the manager assigns or tests.\<close>

datatype GeckoSpaState =
    IDLE
  | LOCATING_SPAS
  | CONNECTING
  | SPA_READY
  | CONNECTED
  | ERROR_SPA_NOT_FOUND
  | ERROR_PING_MISSED
  | ERROR_RF_FAULT
  | ERROR_NEEDS_ATTENTION

text \<open>
  The members of \<open>GeckoSpaEvent\<close> that the manager names; \<open>OTHER_EVENT n\<close> stands for
  the members of the enumeration it never names, which fall through the chain of
  comparisons in \<open>_handle_event\<close>.
\<close>

datatype GeckoSpaEvent =
    SPA_MAN_ENTER
  | SPA_MAN_EXIT
  | LOCATING_STARTED
  | LOCATING_FINISHED
  | SPA_NOT_FOUND
  | CONNECTION_STARTED
  | CONNECTION_SPA_COMPLETE
  | CONNECTION_FINISHED
  | RUNNING_PING_NO_RESPONSE
  | RUNNING_PING_RECEIVED
  | RUNNING_SPA_DISCONNECTED
  | ERROR_RF_ERROR
  | CONNECTION_PROTOCOL_RETRY_COUNT_EXCEEDED
  | ERROR_PROTOCOL_RETRY_COUNT_EXCEEDED
  | ERROR_TOO_MANY_RF_ERRORS
  | OTHER_EVENT nat

subsection \<open>Collaborator objects and Python values\<close>

text \<open>
  Modelled from the spec: the class \<open>GeckoAsyncSpaDescriptor\<close> is not part of this
  module; the glossary describes a descriptor as the data identifying one discovered
  device (address, identifier, name).
\<close>

datatype GeckoAsyncSpaDescriptor =
  GeckoAsyncSpaDescriptor (descriptor_address: string) (descriptor_identifier: string) (descriptor_name: string)

text \<open>
  A session object is what \<open>GeckoAsyncSpa(client_id, descriptor, self,
  self._handle_event)\<close> was built from; a facade is what
  \<open>GeckoAsyncFacade(self._spa, self)\<close> was built from, and \<open>self._spa\<close> is an optional
  field at that moment.
\<close>

datatype GeckoAsyncSpa =
  GeckoAsyncSpa (session_client_id: string) (session_descriptor: GeckoAsyncSpaDescriptor)

datatype GeckoAsyncFacade =
  GeckoAsyncFacade (facade_spa: "GeckoAsyncSpa option")

text \<open>The values that travel in the keyword payload of an event.\<close>

datatype pyval =
    PyNone
  | PyStr string
  | PyDescriptors "GeckoAsyncSpaDescriptor list"
  | PyFacade GeckoAsyncFacade
  | PyOther nat

type_synonym kwargs = "(string \<times> pyval) list"

definition str_val :: "string option \<Rightarrow> pyval" where
  "str_val s = (case s of None \<Rightarrow> PyNone | Some x \<Rightarrow> PyStr x)"

definition descriptors_val :: "GeckoAsyncSpaDescriptor list option \<Rightarrow> pyval" where
  "descriptors_val ds = (case ds of None \<Rightarrow> PyNone | Some xs \<Rightarrow> PyDescriptors xs)"

definition facade_val :: "GeckoAsyncFacade option \<Rightarrow> pyval" where
  "facade_val f = (case f of None \<Rightarrow> PyNone | Some x \<Rightarrow> PyFacade x)"

text \<open>
  Exceptions: \<open>AssertionError c\<close> is raised by the manager's own \<open>assert c\<close>;
  \<open>Raised x\<close> is the exception named \<open>x\<close> coming out of a collaborator or of the
  handler.
\<close>

datatype py_exception =
    AssertionError string
  | Raised string

subsection \<open>The calls that leave the manager\<close>

datatype call =
    Handler GeckoSpaEvent kwargs
      \<comment> \<open>\<open>await self.handle_event(event, **kwargs)\<close>\<close>
  | Discover "string option" "string option"
      \<comment> \<open>\<open>GeckoAsyncLocator(self, self._handle_event, spa_address=.., spa_identifier=..)\<close>
          and \<open>await locator.discover()\<close>\<close>
  | Connect GeckoAsyncSpa
      \<comment> \<open>\<open>await self._spa.connect()\<close>\<close>
  | Disconnect GeckoAsyncSpa
      \<comment> \<open>\<open>await self._spa.disconnect()\<close>\<close>

text \<open>
  The behaviour of the collaborators is a parameter of every method.  Each of them may
  depend on everything that has happened so far (the log of calls).
  \<^item> \<open>handle_event\<close>, the abstract method: returns (\<open>None\<close>) or raises (\<open>Some x\<close>).
  \<^item> \<open>discover\<close>, the locator: the events it reports through the callback while it
    runs, and then either the exception it raises or the list \<open>locator.spas\<close>.
  \<^item> \<open>connect\<close>, the session's handshake: the events it reports through the callback,
    and then whether it raises.

  Modelled from the spec: the session's \<open>disconnect()\<close> is not part of this module;
  the spec gives it no failure mode (only discovery and the handshake are wrapped in a
  guaranteed-cleanup block), so \<open>disconnect()\<close> is a logged call that returns.
  The locator and the session reach the manager's fields only through the callback
  \<open>_handle_event\<close>.  In the methods modelled first the handler is an observer: it
  sees the event and returns or raises.  A handler is a method of the manager, though,
  and may call the manager back while it is awaited; the subsection on handlers that
  call back models that, and the methods whose outcome depends on it.
\<close>

record env =
  handle_event :: "call list \<Rightarrow> GeckoSpaEvent \<Rightarrow> kwargs \<Rightarrow> string option"
  discover :: "call list \<Rightarrow> string option \<Rightarrow> string option \<Rightarrow>
    (GeckoSpaEvent \<times> kwargs) list \<times> (string + GeckoAsyncSpaDescriptor list)"
  connect :: "call list \<Rightarrow> GeckoAsyncSpa \<Rightarrow> (GeckoSpaEvent \<times> kwargs) list \<times> string option"

subsection \<open>The manager\<close>

text \<open>
  The fields of \<open>GeckoAsyncSpaMan\<close>.  \<open>status_line\<close> is the pair that the f-string
  \<open>"State: {state}, last event {event}"\<close> is formatted from; it does not exist before the
  first event.  \<open>calls\<close> is the log.
\<close>

record GeckoAsyncSpaMan =
  client_id :: string
  spa_address :: "string option"
  spa_identifier :: "string option"
  spa_name :: "string option"
  spa_descriptors :: "GeckoAsyncSpaDescriptor list option"
  facade :: "GeckoAsyncFacade option"
  spa :: "GeckoAsyncSpa option"
  spa_state :: GeckoSpaState
  status_line :: "(GeckoSpaState \<times> GeckoSpaEvent) option"
  calls :: "call list"

text \<open>
  \<open>__init__(self, client_uuid, **kwargs)\<close>.  The format string and the encoding of the
  client identifier are constants of another module: \<open>fmt\<close> is their composition.
\<close>

definition normalize_hint :: "string option \<Rightarrow> string option" where
  "normalize_hint v = (if v = Some [] then None else v)"

definition init :: "(string \<Rightarrow> string) \<Rightarrow> string \<Rightarrow> (string \<times> string) list \<Rightarrow> GeckoAsyncSpaMan" where
  "init fmt client_uuid kwargs =
     \<lparr> client_id = fmt client_uuid,
       spa_address = normalize_hint (map_of kwargs ''spa_address''),
       spa_identifier = normalize_hint (map_of kwargs ''spa_identifier''),
       spa_name = normalize_hint (map_of kwargs ''spa_name''),
       spa_descriptors = None,
       facade = None,
       spa = None,
       spa_state = IDLE,
       status_line = None,
       calls = [] \<rparr>"

text \<open>\<open>async_reset\<close> (lines 92 to 101).\<close>

definition async_reset :: "GeckoAsyncSpaMan \<Rightarrow> GeckoAsyncSpaMan" where
  "async_reset m =
     (let m1 = m\<lparr>spa_descriptors := None\<rparr>;
          m2 = (if facade m1 \<noteq> None then m1\<lparr>facade := None\<rparr> else m1);
          m3 = (case spa m2 of
                  None \<Rightarrow> m2
                | Some s \<Rightarrow> m2\<lparr>calls := calls m2 @ [Disconnect s], spa := None\<rparr>)
      in m3\<lparr>spa_state := IDLE\<rparr>)"

text \<open>
  \<open>_handle_event\<close> (lines 248 to 301): the chain of comparisons that sets the state,
  in the order of the source, then the status line, then the abstract method.
\<close>

fun pre_process :: "GeckoSpaEvent \<Rightarrow> GeckoAsyncSpaMan \<Rightarrow> GeckoAsyncSpaMan" where
  "pre_process LOCATING_STARTED m = m\<lparr>spa_state := LOCATING_SPAS\<rparr>"
| "pre_process LOCATING_FINISHED m = m\<lparr>spa_state := IDLE\<rparr>"
| "pre_process SPA_NOT_FOUND m = m\<lparr>spa_state := ERROR_SPA_NOT_FOUND\<rparr>"
| "pre_process CONNECTION_STARTED m = m\<lparr>spa_state := CONNECTING\<rparr>"
| "pre_process CONNECTION_SPA_COMPLETE m = m\<lparr>spa_state := SPA_READY\<rparr>"
| "pre_process CONNECTION_FINISHED m =
     (if facade m \<noteq> None then m\<lparr>spa_state := CONNECTED\<rparr> else m)"
| "pre_process RUNNING_PING_NO_RESPONSE m = m\<lparr>spa_state := ERROR_PING_MISSED\<rparr>"
| "pre_process RUNNING_PING_RECEIVED m =
     (if spa_state m \<in> {ERROR_PING_MISSED, ERROR_RF_FAULT, ERROR_NEEDS_ATTENTION}
      then async_reset m else m)"
| "pre_process ERROR_RF_ERROR m = m\<lparr>spa_state := ERROR_RF_FAULT\<rparr>"
| "pre_process CONNECTION_PROTOCOL_RETRY_COUNT_EXCEEDED m = m\<lparr>spa_state := ERROR_NEEDS_ATTENTION\<rparr>"
| "pre_process ERROR_PROTOCOL_RETRY_COUNT_EXCEEDED m = m\<lparr>spa_state := ERROR_NEEDS_ATTENTION\<rparr>"
| "pre_process ERROR_TOO_MANY_RF_ERRORS m = m\<lparr>spa_state := ERROR_NEEDS_ATTENTION\<rparr>"
| "pre_process _ m = m"

definition private_handle_event ::
  "env \<Rightarrow> GeckoSpaEvent \<Rightarrow> kwargs \<Rightarrow> GeckoAsyncSpaMan \<Rightarrow> (py_exception + unit) \<times> GeckoAsyncSpaMan" where
  "private_handle_event E event kw m =
     (let m1 = pre_process event m;
          m2 = m1\<lparr>status_line := Some (spa_state m1, event)\<rparr>
      in (case handle_event E (calls m2) event kw of
            None \<Rightarrow> Inr ()
          | Some x \<Rightarrow> Inl (Raised x),
          m2\<lparr>calls := calls m2 @ [Handler event kw]\<rparr>))"

text \<open>
  A collaborator that runs reports its events one after the other through the callback.
  An exception of the handler comes out inside the collaborator, whose own outcome says
  what becomes of it.
\<close>

fun dispatch_events :: "env \<Rightarrow> (GeckoSpaEvent \<times> kwargs) list \<Rightarrow> GeckoAsyncSpaMan \<Rightarrow> GeckoAsyncSpaMan" where
  "dispatch_events E [] m = m"
| "dispatch_events E ((event, kw) # rest) m =
     dispatch_events E rest (snd (private_handle_event E event kw m))"

text \<open>
  \<open>async_locate_spas\<close> (lines 103 to 132).  \<open>locate_try\<close> is the \<open>try\<close> block: it
  returns the pending exception, if any.  The \<open>finally\<close> block then runs in every case;
  an exception of its own replaces the pending one.
\<close>

definition locate_try ::
  "env \<Rightarrow> string option \<Rightarrow> string option \<Rightarrow> GeckoAsyncSpaMan \<Rightarrow> py_exception option \<times> GeckoAsyncSpaMan" where
  "locate_try E address ident m =
     (case private_handle_event E LOCATING_STARTED [] m of
        (Inl e, m1) \<Rightarrow> (Some e, m1)
      | (Inr _, m1) \<Rightarrow>
          (case discover E (calls m1) address ident of
             (events, outcome) \<Rightarrow>
               (let m2 = dispatch_events E events
                           (m1\<lparr>calls := calls m1 @ [Discover address ident]\<rparr>)
                in case outcome of
                     Inl x \<Rightarrow> (Some (Raised x), m2)
                   | Inr spas \<Rightarrow> (None, m2\<lparr>spa_descriptors := Some spas\<rparr>))))"

definition async_locate_spas ::
  "env \<Rightarrow> string option \<Rightarrow> string option \<Rightarrow> GeckoAsyncSpaMan \<Rightarrow>
     (py_exception + GeckoAsyncSpaDescriptor list option) \<times> GeckoAsyncSpaMan" where
  "async_locate_spas E address ident m =
     (case locate_try E address ident m of
        (pending, m1) \<Rightarrow>
          (case private_handle_event E LOCATING_FINISHED
                  [(''spa_descriptors'', descriptors_val (spa_descriptors m1))] m1 of
             (Inl e, m2) \<Rightarrow> (Inl e, m2)
           | (Inr _, m2) \<Rightarrow>
               (case pending of
                  Some e \<Rightarrow> (Inl e, m2)
                | None \<Rightarrow> (Inr (spa_descriptors m2), m2))))"

text \<open>
  \<open>async_connect_to_spa\<close> (lines 134 to 156).  \<open>connect_handshake\<close> is the \<open>try\<close> block
  up to the return of \<open>await self._spa.connect()\<close>; \<open>connect_try\<close> adds the test of the
  state and the construction of the facade.
\<close>

definition connect_handshake ::
  "env \<Rightarrow> GeckoAsyncSpaDescriptor \<Rightarrow> GeckoAsyncSpaMan \<Rightarrow> py_exception option \<times> GeckoAsyncSpaMan" where
  "connect_handshake E spa_descriptor m =
     (case private_handle_event E CONNECTION_STARTED [] m of
        (Inl e, m1) \<Rightarrow> (Some e, m1)
      | (Inr _, m1) \<Rightarrow>
          (let s = GeckoAsyncSpa (client_id m1) spa_descriptor;
               m2 = m1\<lparr>spa := Some s\<rparr>
           in case connect E (calls m2) s of
                (events, outcome) \<Rightarrow>
                  (map_option Raised outcome,
                   dispatch_events E events (m2\<lparr>calls := calls m2 @ [Connect s]\<rparr>))))"

definition connect_try ::
  "env \<Rightarrow> GeckoAsyncSpaDescriptor \<Rightarrow> GeckoAsyncSpaMan \<Rightarrow> py_exception option \<times> GeckoAsyncSpaMan" where
  "connect_try E spa_descriptor m =
     (case connect_handshake E spa_descriptor m of
        (Some e, m1) \<Rightarrow> (Some e, m1)
      | (None, m1) \<Rightarrow>
          (None,
           if spa_state m1 = SPA_READY
           then m1\<lparr>facade := Some (GeckoAsyncFacade (spa m1))\<rparr>
           else m1))"

definition async_connect_to_spa ::
  "env \<Rightarrow> GeckoAsyncSpaDescriptor \<Rightarrow> GeckoAsyncSpaMan \<Rightarrow>
     (py_exception + GeckoAsyncFacade option) \<times> GeckoAsyncSpaMan" where
  "async_connect_to_spa E spa_descriptor m =
     (if facade m \<noteq> None then (Inl (AssertionError ''self._facade is None''), m)
      else
        (case connect_try E spa_descriptor m of
           (pending, m1) \<Rightarrow>
             (case private_handle_event E CONNECTION_FINISHED
                     [(''facade'', facade_val (facade m1))] m1 of
                (Inl e, m2) \<Rightarrow> (Inl e, m2)
              | (Inr _, m2) \<Rightarrow>
                  (case pending of
                     Some e \<Rightarrow> (Inl e, m2)
                   | None \<Rightarrow> (Inr (facade m2), m2)))))"

text \<open>\<open>async_connect\<close> (lines 158 to 179).\<close>

definition async_connect ::
  "env \<Rightarrow> string \<Rightarrow> string option \<Rightarrow> GeckoAsyncSpaMan \<Rightarrow>
     (py_exception + GeckoAsyncFacade option) \<times> GeckoAsyncSpaMan" where
  "async_connect E ident address m =
     (case async_locate_spas E address (Some ident) m of
        (Inl e, m1) \<Rightarrow> (Inl e, m1)
      | (Inr None, m1) \<Rightarrow> (Inl (AssertionError ''spa_descriptors is not None''), m1)
      | (Inr (Some []), m1) \<Rightarrow>
          (case private_handle_event E SPA_NOT_FOUND
                  [(''spa_address'', str_val address), (''spa_identifier'', PyStr ident)] m1 of
             (Inl e, m2) \<Rightarrow> (Inl e, m2)
           | (Inr _, m2) \<Rightarrow> (Inr None, m2))
      | (Inr (Some (d # ds)), m1) \<Rightarrow> async_connect_to_spa E d m1)"

text \<open>\<open>async_set_spa_info\<close> (lines 181 to 195).\<close>

definition async_set_spa_info ::
  "string option \<Rightarrow> string option \<Rightarrow> string option \<Rightarrow> GeckoAsyncSpaMan \<Rightarrow> GeckoAsyncSpaMan" where
  "async_set_spa_info address ident nm m =
     async_reset (m\<lparr>spa_address := address, spa_identifier := ident, spa_name := nm\<rparr>)"

text \<open>
  \<open>_sequence_pump\<close> (lines 305 to 329).  \<open>pump_iteration\<close> is the body of the
  \<open>while True\<close> loop before its \<open>asyncio.sleep(0)\<close>.  The loop never ends by itself: it
  is left by an exception of the body, or by the cancellation that arrives at the sleep.
  In \<open>private_sequence_pump\<close> the schedule lists, for each sleep that returns, the events
  that other tasks report meanwhile; the cancellation arrives when the schedule is used
  up, and the \<open>except\<close> clause raises it again.
\<close>

definition pump_iteration :: "env \<Rightarrow> GeckoAsyncSpaMan \<Rightarrow> (py_exception + unit) \<times> GeckoAsyncSpaMan" where
  "pump_iteration E m =
     (if spa_state m = IDLE then
        (case spa_identifier m of
           Some ident \<Rightarrow>
             (if facade m = None then
                (case async_connect E ident (spa_address m) m of
                   (Inl e, m1) \<Rightarrow> (Inl e, m1)
                 | (Inr _, m1) \<Rightarrow> (Inr (), m1))
              else (Inr (), m))
         | None \<Rightarrow>
             (if spa_descriptors m = None then
                (case async_locate_spas E (spa_address m) None m of
                   (Inl e, m1) \<Rightarrow> (Inl e, m1)
                 | (Inr _, m1) \<Rightarrow> (Inr (), m1))
              else (Inr (), m)))
      else (Inr (), m))"

fun private_sequence_pump ::
  "env \<Rightarrow> (GeckoSpaEvent \<times> kwargs) list list \<Rightarrow> GeckoAsyncSpaMan \<Rightarrow> py_exception \<times> GeckoAsyncSpaMan" where
  "private_sequence_pump E [] m = (Raised ''CancelledError'', m)"
| "private_sequence_pump E (meanwhile # schedule) m =
     (case pump_iteration E m of
        (Inl e, m1) \<Rightarrow> (e, m1)
      | (Inr _, m1) \<Rightarrow> private_sequence_pump E schedule (dispatch_events E meanwhile m1))"

subsection \<open>A handler that calls back into the manager\<close>

text \<open>
  \<open>handle_event\<close> is a method of the derived class, awaited at line 301 inside
  \<open>_handle_event\<close>: while it runs it may call the public methods of the manager.  The
  two that emit no event are \<open>async_reset\<close> and \<open>async_set_spa_info\<close>; a handler that
  recovers from a fault calls them.  \<open>reentry\<close> gives, for the history so far, the event
  and its payload, the public calls the handler makes before it returns or raises.
\<close>

datatype public_call =
    Reset
  | SetSpaInfo "string option" "string option" "string option"

fun run_public_call :: "public_call \<Rightarrow> GeckoAsyncSpaMan \<Rightarrow> GeckoAsyncSpaMan" where
  "run_public_call Reset m = async_reset m"
| "run_public_call (SetSpaInfo address ident nm) m = async_set_spa_info address ident nm m"

type_synonym reentry = "call list \<Rightarrow> GeckoSpaEvent \<Rightarrow> kwargs \<Rightarrow> public_call list"

text \<open>
  \<open>_handle_event\<close> (lines 248 to 301) with such a handler: the state and the status line
  are set, the handler is called, and the manager that the caller of \<open>_handle_event\<close>
  gets back is the one the handler's own calls have left.
\<close>

definition r_private_handle_event ::
  "env \<Rightarrow> reentry \<Rightarrow> GeckoSpaEvent \<Rightarrow> kwargs \<Rightarrow> GeckoAsyncSpaMan \<Rightarrow>
     (py_exception + unit) \<times> GeckoAsyncSpaMan" where
  "r_private_handle_event E H event kw m =
     (let m1 = pre_process event m;
          m2 = m1\<lparr>status_line := Some (spa_state m1, event)\<rparr>;
          m3 = m2\<lparr>calls := calls m2 @ [Handler event kw]\<rparr>
      in (case handle_event E (calls m2) event kw of
            None \<Rightarrow> Inr ()
          | Some x \<Rightarrow> Inl (Raised x),
          fold run_public_call (H (calls m2) event kw) m3))"

fun r_dispatch_events ::
  "env \<Rightarrow> reentry \<Rightarrow> (GeckoSpaEvent \<times> kwargs) list \<Rightarrow> GeckoAsyncSpaMan \<Rightarrow> GeckoAsyncSpaMan" where
  "r_dispatch_events E H [] m = m"
| "r_dispatch_events E H ((event, kw) # rest) m =
     r_dispatch_events E H rest (snd (r_private_handle_event E H event kw m))"

text \<open>\<open>async_locate_spas\<close> (lines 103 to 132) with such a handler.\<close>

definition r_locate_try ::
  "env \<Rightarrow> reentry \<Rightarrow> string option \<Rightarrow> string option \<Rightarrow> GeckoAsyncSpaMan \<Rightarrow>
     py_exception option \<times> GeckoAsyncSpaMan" where
  "r_locate_try E H address ident m =
     (case r_private_handle_event E H LOCATING_STARTED [] m of
        (Inl e, m1) \<Rightarrow> (Some e, m1)
      | (Inr _, m1) \<Rightarrow>
          (case discover E (calls m1) address ident of
             (events, outcome) \<Rightarrow>
               (let m2 = r_dispatch_events E H events
                           (m1\<lparr>calls := calls m1 @ [Discover address ident]\<rparr>)
                in case outcome of
                     Inl x \<Rightarrow> (Some (Raised x), m2)
                   | Inr spas \<Rightarrow> (None, m2\<lparr>spa_descriptors := Some spas\<rparr>))))"

definition r_async_locate_spas ::
  "env \<Rightarrow> reentry \<Rightarrow> string option \<Rightarrow> string option \<Rightarrow> GeckoAsyncSpaMan \<Rightarrow>
     (py_exception + GeckoAsyncSpaDescriptor list option) \<times> GeckoAsyncSpaMan" where
  "r_async_locate_spas E H address ident m =
     (case r_locate_try E H address ident m of
        (pending, m1) \<Rightarrow>
          (case r_private_handle_event E H LOCATING_FINISHED
                  [(''spa_descriptors'', descriptors_val (spa_descriptors m1))] m1 of
             (Inl e, m2) \<Rightarrow> (Inl e, m2)
           | (Inr _, m2) \<Rightarrow>
               (case pending of
                  Some e \<Rightarrow> (Inl e, m2)
                | None \<Rightarrow> (Inr (spa_descriptors m2), m2))))"

text \<open>\<open>async_connect_to_spa\<close> (lines 134 to 156) with such a handler.\<close>

definition r_connect_handshake ::
  "env \<Rightarrow> reentry \<Rightarrow> GeckoAsyncSpaDescriptor \<Rightarrow> GeckoAsyncSpaMan \<Rightarrow>
     py_exception option \<times> GeckoAsyncSpaMan" where
  "r_connect_handshake E H spa_descriptor m =
     (case r_private_handle_event E H CONNECTION_STARTED [] m of
        (Inl e, m1) \<Rightarrow> (Some e, m1)
      | (Inr _, m1) \<Rightarrow>
          (let s = GeckoAsyncSpa (client_id m1) spa_descriptor;
               m2 = m1\<lparr>spa := Some s\<rparr>
           in case connect E (calls m2) s of
                (events, outcome) \<Rightarrow>
                  (map_option Raised outcome,
                   r_dispatch_events E H events (m2\<lparr>calls := calls m2 @ [Connect s]\<rparr>))))"

definition r_connect_try ::
  "env \<Rightarrow> reentry \<Rightarrow> GeckoAsyncSpaDescriptor \<Rightarrow> GeckoAsyncSpaMan \<Rightarrow>
     py_exception option \<times> GeckoAsyncSpaMan" where
  "r_connect_try E H spa_descriptor m =
     (case r_connect_handshake E H spa_descriptor m of
        (Some e, m1) \<Rightarrow> (Some e, m1)
      | (None, m1) \<Rightarrow>
          (None,
           if spa_state m1 = SPA_READY
           then m1\<lparr>facade := Some (GeckoAsyncFacade (spa m1))\<rparr>
           else m1))"

definition r_async_connect_to_spa ::
  "env \<Rightarrow> reentry \<Rightarrow> GeckoAsyncSpaDescriptor \<Rightarrow> GeckoAsyncSpaMan \<Rightarrow>
     (py_exception + GeckoAsyncFacade option) \<times> GeckoAsyncSpaMan" where
  "r_async_connect_to_spa E H spa_descriptor m =
     (if facade m \<noteq> None then (Inl (AssertionError ''self._facade is None''), m)
      else
        (case r_connect_try E H spa_descriptor m of
           (pending, m1) \<Rightarrow>
             (case r_private_handle_event E H CONNECTION_FINISHED
                     [(''facade'', facade_val (facade m1))] m1 of
                (Inl e, m2) \<Rightarrow> (Inl e, m2)
              | (Inr _, m2) \<Rightarrow>
                  (case pending of
                     Some e \<Rightarrow> (Inl e, m2)
                   | None \<Rightarrow> (Inr (facade m2), m2)))))"

text \<open>\<open>async_connect\<close> (lines 158 to 179) with such a handler.\<close>

definition r_async_connect ::
  "env \<Rightarrow> reentry \<Rightarrow> string \<Rightarrow> string option \<Rightarrow> GeckoAsyncSpaMan \<Rightarrow>
     (py_exception + GeckoAsyncFacade option) \<times> GeckoAsyncSpaMan" where
  "r_async_connect E H ident address m =
     (case r_async_locate_spas E H address (Some ident) m of
        (Inl e, m1) \<Rightarrow> (Inl e, m1)
      | (Inr None, m1) \<Rightarrow> (Inl (AssertionError ''spa_descriptors is not None''), m1)
      | (Inr (Some []), m1) \<Rightarrow>
          (case r_private_handle_event E H SPA_NOT_FOUND
                  [(''spa_address'', str_val address), (''spa_identifier'', PyStr ident)] m1 of
             (Inl e, m2) \<Rightarrow> (Inl e, m2)
           | (Inr _, m2) \<Rightarrow> (Inr None, m2))
      | (Inr (Some (d # ds)), m1) \<Rightarrow> r_async_connect_to_spa E H d m1)"

subsection \<open>Reading the log\<close>

text \<open>The events that reached the abstract handler, in the order of the calls.\<close>

fun forwarded :: "call list \<Rightarrow> (GeckoSpaEvent \<times> kwargs) list" where
  "forwarded [] = []"
| "forwarded (Handler event kw # cs) = (event, kw) # forwarded cs"
| "forwarded (_ # cs) = forwarded cs"

text \<open>The calls a method has added to the log of the manager it started from.\<close>

definition new_calls :: "GeckoAsyncSpaMan \<Rightarrow> GeckoAsyncSpaMan \<Rightarrow> call list" where
  "new_calls m m' = drop (length (calls m)) (calls m')"

fun is_discover :: "call \<Rightarrow> bool" where
  "is_discover (Discover _ _) = True"
| "is_discover _ = False"



subsection \<open>The decision of the pump, in the words of the specification\<close>

text \<open>
  Only when the state is \<open>IDLE\<close>: with an identifier hint and no facade, connect by
  identifier with the configured identifier and address hints; else, with no identifier
  hint and no descriptors yet, discover with the configured address hint; otherwise do
  nothing.  The decision reads the state, the hints, the facade and the descriptors, and
  nothing else.
\<close>

datatype pump_action =
    ConnectByIdentifier string "string option"
  | Discovery "string option"
  | NoOperation

definition spec_pump_decision ::
  "GeckoSpaState \<Rightarrow> string option \<Rightarrow> string option \<Rightarrow> GeckoAsyncFacade option \<Rightarrow>
     GeckoAsyncSpaDescriptor list option \<Rightarrow> pump_action" where
  "spec_pump_decision state identifier_hint address_hint fac descriptors =
     (if state = IDLE then
        (case (identifier_hint, fac) of
           (Some ident, None) \<Rightarrow> ConnectByIdentifier ident address_hint
         | _ \<Rightarrow>
             if identifier_hint = None \<and> descriptors = None
             then Discovery address_hint
             else NoOperation)
      else NoOperation)"

fun perform :: "env \<Rightarrow> pump_action \<Rightarrow> GeckoAsyncSpaMan \<Rightarrow> (py_exception + unit) \<times> GeckoAsyncSpaMan" where
  "perform E (ConnectByIdentifier ident address) m =
     (case async_connect E ident address m of (r, m1) \<Rightarrow> (map_sum id (\<lambda>_. ()) r, m1))"
| "perform E (Discovery address) m =
     (case async_locate_spas E address None m of (r, m1) \<Rightarrow> (map_sum id (\<lambda>_. ()) r, m1))"
| "perform E NoOperation m = (Inr (), m)"

subsection \<open>Concrete environments\<close>

text \<open>A silent environment: the handler returns, nothing is found, a handshake reports
  completion.\<close>

definition quiet_env :: env where
  "quiet_env =
     \<lparr> handle_event = (\<lambda>_ _ _. None),
       discover = (\<lambda>_ _ _. ([], Inr [])),
       connect = (\<lambda>_ _. ([(CONNECTION_SPA_COMPLETE, [])], None)) \<rparr>"

text \<open>An environment whose locator fails.\<close>

definition failing_locator_env :: env where
  "failing_locator_env = quiet_env\<lparr>discover := (\<lambda>_ _ _. ([], Inl ''OSError''))\<rparr>"

text \<open>A descriptor, and a manager constructed with no hints.\<close>

definition my_spa :: GeckoAsyncSpaDescriptor where
  "my_spa = GeckoAsyncSpaDescriptor ''10.0.0.7'' ''SPA00'' ''My Spa''"

definition fresh :: GeckoAsyncSpaMan where
  "fresh = init (\<lambda>u. ''IOS'' @ u) ''02ab'' []"



text \<open>A handler that makes no call of its own, and one that resets the manager when
  it is told that locating has finished.\<close>

definition no_reentry :: reentry where
  "no_reentry = (\<lambda>_ _ _. [])"


section \<open>Basic facts\<close>

lemma async_reset_simps:
  "spa_descriptors (async_reset m) = None"
  "facade (async_reset m) = None"
  "spa (async_reset m) = None"
  "spa_state (async_reset m) = IDLE"
  "client_id (async_reset m) = client_id m"
  "spa_address (async_reset m) = spa_address m"
  "spa_identifier (async_reset m) = spa_identifier m"
  "spa_name (async_reset m) = spa_name m"
  "status_line (async_reset m) = status_line m"
  "calls (async_reset m) = calls m @ (case spa m of None \<Rightarrow> [] | Some s \<Rightarrow> [Disconnect s])"
  by (simp_all add: async_reset_def Let_def split: option.splits)

lemma snd_private_handle_event:
  "snd (private_handle_event E ev kw m) =
     (pre_process ev m)\<lparr>status_line := Some (spa_state (pre_process ev m), ev),
                         calls := calls (pre_process ev m) @ [Handler ev kw]\<rparr>"
  by (simp add: private_handle_event_def Let_def)

lemma fst_private_handle_event:
  "fst (private_handle_event E ev kw m) =
     (case handle_event E (calls (pre_process ev m)) ev kw of
        None \<Rightarrow> Inr ()
      | Some x \<Rightarrow> Inl (Raised x))"
  by (simp add: private_handle_event_def Let_def)

text \<open>Only a recovering ping adds a call of its own to the log: the disconnect of the reset.\<close>

lemma pre_process_calls:
  "calls (pre_process ev m) =
     calls m @ (if ev = RUNNING_PING_RECEIVED
                   \<and> spa_state m \<in> {ERROR_PING_MISSED, ERROR_RF_FAULT, ERROR_NEEDS_ATTENTION}
                then (case spa m of None \<Rightarrow> [] | Some s \<Rightarrow> [Disconnect s]) else [])"
  by (cases ev) (simp_all add: async_reset_simps)

lemma forwarded_append: "forwarded (xs @ ys) = forwarded xs @ forwarded ys"
  by (induction xs rule: forwarded.induct) simp_all

lemma forwarded_pre_process: "forwarded (calls (pre_process ev m)) = forwarded (calls m)"
  by (simp add: pre_process_calls forwarded_append split: option.splits)

lemma forwarded_private_handle_event:
  "forwarded (calls (snd (private_handle_event E ev kw m))) = forwarded (calls m) @ [(ev, kw)]"
  by (simp add: snd_private_handle_event forwarded_append forwarded_pre_process)

lemma forwarded_dispatch_events:
  "forwarded (calls (dispatch_events E evs m)) = forwarded (calls m) @ evs"
  by (induction evs arbitrary: m) (auto simp: forwarded_private_handle_event)

section \<open>The event dispatcher\<close>

text \<open>
  C1.  Every event dispatched through \<open>_handle_event\<close>, whatever its keyword payload,
  reaches the abstract handler with that payload, as the last call of the dispatch; and
  over a sequence of dispatched events the stream of forwarded events grows by exactly
  that sequence, in order.  Nothing is filtered, reordered or skipped, whether or not
  the event changes the state.
\<close>

theorem dispatcher_forwards_every_event:
  "forwarded (calls (snd (private_handle_event E event kw m))) = forwarded (calls m) @ [(event, kw)]
   \<and> last (calls (snd (private_handle_event E event kw m))) = Handler event kw
   \<and> forwarded (calls (dispatch_events E events m)) = forwarded (calls m) @ events"
  by (simp add: forwarded_dispatch_events snd_private_handle_event forwarded_append
      forwarded_pre_process)

text \<open>
  C2.  A ping-received event dispatched in one of the states \<open>ERROR_PING_MISSED\<close>,
  \<open>ERROR_RF_FAULT\<close>, \<open>ERROR_NEEDS_ATTENTION\<close> resets the manager: afterwards the state
  is \<open>IDLE\<close> and descriptors, facade and session are \<open>None\<close>.  In every other state it
  leaves the state as it was.
\<close>

theorem ping_received_resets_from_error_states:
  "(let m' = snd (private_handle_event E RUNNING_PING_RECEIVED kw m) in
     if spa_state m \<in> {ERROR_PING_MISSED, ERROR_RF_FAULT, ERROR_NEEDS_ATTENTION}
     then spa_state m' = IDLE \<and> spa_descriptors m' = None \<and> facade m' = None \<and> spa m' = None
     else spa_state m' = spa_state m)"
  by (simp add: snd_private_handle_event async_reset_simps Let_def)

section \<open>Reset and reconfiguration\<close>

text \<open>
  C8.  From every manager state, \<open>async_reset\<close> sets descriptors, facade and session to
  \<open>None\<close> and the state to \<open>IDLE\<close>; it calls \<open>disconnect()\<close> on the session exactly when
  there is one, and makes no call at all when there is none.  The hints and the client
  identifier are kept.
\<close>

theorem async_reset_clears:
  "spa_descriptors (async_reset m) = None
   \<and> facade (async_reset m) = None
   \<and> spa (async_reset m) = None
   \<and> spa_state (async_reset m) = IDLE
   \<and> calls (async_reset m) = calls m @ (case spa m of None \<Rightarrow> [] | Some s \<Rightarrow> [Disconnect s])
   \<and> spa_address (async_reset m) = spa_address m
   \<and> spa_identifier (async_reset m) = spa_identifier m
   \<and> spa_name (async_reset m) = spa_name m
   \<and> client_id (async_reset m) = client_id m"
  by (simp add: async_reset_simps)

text \<open>
  C10.  \<open>async_set_spa_info\<close> stores the three hints and resets by itself: whatever the
  manager was before, afterwards the state is \<open>IDLE\<close> and descriptors, facade and
  session are \<open>None\<close>.
\<close>

theorem set_spa_info_resets:
  "(let m' = async_set_spa_info address ident nm m in
     spa_state m' = IDLE \<and> spa_descriptors m' = None \<and> facade m' = None \<and> spa m' = None
     \<and> spa_address m' = address \<and> spa_identifier m' = ident \<and> spa_name m' = nm)"
  by (simp add: async_set_spa_info_def async_reset_simps Let_def)

text \<open>
  The constructor turns an empty-string hint into \<open>None\<close>: no hint of a new manager is
  the empty string.
\<close>

lemma init_hints_normalized:
  "spa_address (init fmt u kw) \<noteq> Some []
   \<and> spa_identifier (init fmt u kw) \<noteq> Some []
   \<and> spa_name (init fmt u kw) \<noteq> Some []"
  by (simp add: init_def normalize_hint_def)

text \<open>
  C6.  The claim is that an empty-string hint is turned into \<open>None\<close> by the constructor
  and by \<open>async_set_spa_info\<close> alike.  The constructor does so (\<open>init_hints_normalized\<close>);
  \<open>async_set_spa_info\<close> stores its arguments as they are, so that after
  \<open>async_set_spa_info("", "", "")\<close> all three hints equal the empty string.
\<close>

theorem set_spa_info_stores_empty_string:
  "spa_address (async_set_spa_info (Some []) (Some []) (Some []) fresh) = Some []
   \<and> spa_identifier (async_set_spa_info (Some []) (Some []) (Some []) fresh) = Some []
   \<and> spa_name (async_set_spa_info (Some []) (Some []) (Some []) fresh) = Some []"
  by (simp add: async_set_spa_info_def async_reset_simps)

section \<open>The sequence pump\<close>

text \<open>
  C7.  One iteration of the pump does what the decision in the words of the
  specification says, and that decision is computed from the state, the two hints, the
  facade and the descriptors alone: outside \<open>IDLE\<close> nothing; in \<open>IDLE\<close> with an
  identifier hint and no facade, \<open>async_connect\<close> with the identifier and address hints;
  in \<open>IDLE\<close> with no identifier hint and no descriptors, \<open>async_locate_spas\<close> with the
  address hint; nothing otherwise.
\<close>

theorem pump_iteration_decision:
  "pump_iteration E m =
     perform E (spec_pump_decision (spa_state m) (spa_identifier m) (spa_address m)
                  (facade m) (spa_descriptors m)) m"
  by (auto simp: pump_iteration_def spec_pump_decision_def
      split: option.splits prod.splits sum.splits)

text \<open>
  A manager constructed with the identifier \<open>"ABC"\<close> only, and a locator that finds
  nothing: one iteration of the pump forwards locating-started, locating-finished with
  the empty list and device-not-found, and ends in \<open>ERROR_SPA_NOT_FOUND\<close>.
\<close>

lemma pump_with_identifier_nothing_found:
  "(case pump_iteration quiet_env (init (\<lambda>u. ''IOS'' @ u) ''02ab'' [(''spa_identifier'', ''ABC'')]) of
      (r, m') \<Rightarrow>
        r = Inr ()
        \<and> spa_state m' = ERROR_SPA_NOT_FOUND
        \<and> calls m' =
            [Handler LOCATING_STARTED [],
             Discover None (Some ''ABC''),
             Handler LOCATING_FINISHED [(''spa_descriptors'', PyDescriptors [])],
             Handler SPA_NOT_FOUND [(''spa_address'', PyNone), (''spa_identifier'', PyStr ''ABC'')]])"
  by (simp add: pump_iteration_def async_connect_def async_locate_spas_def locate_try_def
      private_handle_event_def quiet_env_def Let_def init_def normalize_hint_def
      descriptors_val_def str_val_def)

section \<open>Discovery\<close>

lemma calls_private_handle_event:
  "calls (snd (private_handle_event E ev kw m)) = calls (pre_process ev m) @ [Handler ev kw]"
  by (simp add: snd_private_handle_event)

lemma calls_dispatch_events:
  "\<exists>cs. calls (dispatch_events E evs m) = calls m @ cs \<and> \<not> list_ex is_discover cs"
proof (induction evs arbitrary: m)
  case Nil
  then show ?case by simp
next
  case (Cons p evs)
  obtain ev kw where p: "p = (ev, kw)" by (cases p)
  let ?m1 = "snd (private_handle_event E ev kw m)"
  from Cons.IH [of ?m1] obtain cs where
    cs: "calls (dispatch_events E evs ?m1) = calls ?m1 @ cs" "\<not> list_ex is_discover cs"
    by blast
  have "calls ?m1 = calls m @ (if ev = RUNNING_PING_RECEIVED
                   \<and> spa_state m \<in> {ERROR_PING_MISSED, ERROR_RF_FAULT, ERROR_NEEDS_ATTENTION}
                then (case spa m of None \<Rightarrow> [] | Some s \<Rightarrow> [Disconnect s]) else []) @ [Handler ev kw]"
    (is "_ = _ @ ?d @ _")
    by (simp add: calls_private_handle_event pre_process_calls)
  moreover have "\<not> list_ex is_discover ?d"
    by (simp split: option.splits)
  ultimately show ?case
    using cs p by (rule_tac x = "?d @ [Handler ev kw] @ cs" in exI) simp
qed

lemma locate_try_calls:
  "\<exists>mid. calls (snd (locate_try E a i m)) = calls m @ Handler LOCATING_STARTED [] # mid
     \<and> (mid = [] \<or> (\<exists>cb. mid = Discover a i # cb \<and> \<not> list_ex is_discover cb))"
proof (cases "fst (private_handle_event E LOCATING_STARTED [] m)")
  case (Inl e)
  then show ?thesis
    by (simp add: locate_try_def split_beta calls_private_handle_event)
next
  case (Inr u)
  let ?m1 = "snd (private_handle_event E LOCATING_STARTED [] m)"
  let ?m1' = "?m1\<lparr>calls := calls ?m1 @ [Discover a i]\<rparr>"
  obtain evs out where d: "discover E (calls ?m1) a i = (evs, out)"
    by (cases "discover E (calls ?m1) a i")
  obtain cb where cb: "calls (dispatch_events E evs ?m1') = calls ?m1' @ cb"
    "\<not> list_ex is_discover cb"
    using calls_dispatch_events by blast
  have "calls (snd (locate_try E a i m)) = calls (dispatch_events E evs ?m1')"
    using Inr d by (cases out) (simp_all add: locate_try_def split_beta Let_def)
  then show ?thesis
    using cb by (simp add: calls_private_handle_event)
qed

lemma spa_descriptors_finished:
  "spa_descriptors (snd (private_handle_event E LOCATING_FINISHED kw m)) = spa_descriptors m"
  "spa_state (snd (private_handle_event E LOCATING_FINISHED kw m)) = IDLE"
  by (simp_all add: snd_private_handle_event)

lemma snd_async_locate_spas:
  "snd (async_locate_spas E a i m) =
     snd (private_handle_event E LOCATING_FINISHED
            [(''spa_descriptors'', descriptors_val (spa_descriptors (snd (locate_try E a i m))))]
            (snd (locate_try E a i m)))"
  by (simp add: async_locate_spas_def split_beta split: sum.splits option.splits)

lemma async_locate_spas_calls:
  "\<exists>mid. new_calls m (snd (async_locate_spas E a i m)) =
       Handler LOCATING_STARTED [] # mid @
       [Handler LOCATING_FINISHED
          [(''spa_descriptors'', descriptors_val (spa_descriptors (snd (async_locate_spas E a i m))))]]
     \<and> (mid = [] \<or> (\<exists>cb. mid = Discover a i # cb \<and> \<not> list_ex is_discover cb))"
proof -
  obtain mid where mid: "calls (snd (locate_try E a i m)) = calls m @ Handler LOCATING_STARTED [] # mid"
    "mid = [] \<or> (\<exists>cb. mid = Discover a i # cb \<and> \<not> list_ex is_discover cb)"
    using locate_try_calls by blast
  have "new_calls m (snd (async_locate_spas E a i m)) =
       Handler LOCATING_STARTED [] # mid @
       [Handler LOCATING_FINISHED
          [(''spa_descriptors'', descriptors_val (spa_descriptors (snd (async_locate_spas E a i m))))]]"
    by (simp add: snd_async_locate_spas spa_descriptors_finished calls_private_handle_event
        new_calls_def mid(1))
  with mid(2) show ?thesis by blast
qed

lemma async_locate_spas_quiet_handler:
  assumes quiet: "\<And>l e k. handle_event E l e k = None"
  shows "case snd (discover E (calls m @ [Handler LOCATING_STARTED []]) a i) of
           Inl x \<Rightarrow> fst (async_locate_spas E a i m) = Inl (Raised x)
         | Inr spas \<Rightarrow> fst (async_locate_spas E a i m) = Inr (Some spas)
             \<and> spa_descriptors (snd (async_locate_spas E a i m)) = Some spas"
proof -
  have ok: "\<And>ev kw m. fst (private_handle_event E ev kw m) = Inr ()"
    by (simp add: fst_private_handle_event quiet)
  have c: "calls (snd (private_handle_event E LOCATING_STARTED [] m)) =
      calls m @ [Handler LOCATING_STARTED []]"
    by (simp add: calls_private_handle_event)
  obtain evs out where d: "discover E (calls m @ [Handler LOCATING_STARTED []]) a i = (evs, out)"
    by (cases "discover E (calls m @ [Handler LOCATING_STARTED []]) a i")
  show ?thesis
  proof (cases out)
    case (Inl x)
    have "fst (locate_try E a i m) = Some (Raised x)"
      using d Inl by (simp add: locate_try_def split_beta ok c Let_def)
    then have "fst (async_locate_spas E a i m) = Inl (Raised x)"
      by (simp add: async_locate_spas_def split_beta ok)
    then show ?thesis using d Inl by simp
  next
    case (Inr spas)
    have lt: "fst (locate_try E a i m) = None"
      and sd: "spa_descriptors (snd (locate_try E a i m)) = Some spas"
      using d Inr by (simp_all add: locate_try_def split_beta ok c Let_def)
    have sd': "spa_descriptors (snd (async_locate_spas E a i m)) = Some spas"
      by (simp add: snd_async_locate_spas spa_descriptors_finished sd)
    have "fst (async_locate_spas E a i m) =
        Inr (spa_descriptors (snd (private_handle_event E LOCATING_FINISHED
            [(''spa_descriptors'', descriptors_val (spa_descriptors (snd (locate_try E a i m))))]
            (snd (locate_try E a i m)))))"
      using lt by (simp add: async_locate_spas_def split_beta ok)
    then have "fst (async_locate_spas E a i m) = Inr (Some spas)"
      by (simp add: spa_descriptors_finished sd)
    then show ?thesis using d Inr sd' by simp
  qed
qed

text \<open>
  C3.  Whatever the locator and the handler do, the calls that \<open>async_locate_spas\<close>
  adds to the log begin with the locating-started event and end with the
  locating-finished event, which carries the descriptors field as it then is; the
  locator is invoked at most once, after the started event and before the finished one
  (it is not invoked at all only when the handler raised on the started event); and the
  state after the finished event is \<open>IDLE\<close>.  With a handler that returns, an exception
  of the locator is the exception that \<open>async_locate_spas\<close> raises (after the finished
  event has been forwarded), and a list returned by the locator, empty or not, is both
  stored and returned.
\<close>

theorem locate_emits_started_and_finished:
  "(\<exists>mid. new_calls m (snd (async_locate_spas E address ident m)) =
       Handler LOCATING_STARTED [] # mid @
       [Handler LOCATING_FINISHED
          [(''spa_descriptors'',
            descriptors_val (spa_descriptors (snd (async_locate_spas E address ident m))))]]
     \<and> (mid = [] \<or> (\<exists>cb. mid = Discover address ident # cb \<and> \<not> list_ex is_discover cb)))
   \<and> spa_state (snd (async_locate_spas E address ident m)) = IDLE
   \<and> ((\<forall>l e k. handle_event E l e k = None) \<longrightarrow>
        (case snd (discover E (calls m @ [Handler LOCATING_STARTED []]) address ident) of
           Inl x \<Rightarrow> fst (async_locate_spas E address ident m) = Inl (Raised x)
         | Inr spas \<Rightarrow> fst (async_locate_spas E address ident m) = Inr (Some spas)
             \<and> spa_descriptors (snd (async_locate_spas E address ident m)) = Some spas))"
proof (intro conjI impI)
  show "\<exists>mid. new_calls m (snd (async_locate_spas E address ident m)) =
       Handler LOCATING_STARTED [] # mid @
       [Handler LOCATING_FINISHED
          [(''spa_descriptors'',
            descriptors_val (spa_descriptors (snd (async_locate_spas E address ident m))))]]
     \<and> (mid = [] \<or> (\<exists>cb. mid = Discover address ident # cb \<and> \<not> list_ex is_discover cb))"
    by (rule async_locate_spas_calls)
  show "spa_state (snd (async_locate_spas E address ident m)) = IDLE"
    by (simp add: snd_async_locate_spas spa_descriptors_finished)
next
  assume "\<forall>l e k. handle_event E l e k = None"
  then show "case snd (discover E (calls m @ [Handler LOCATING_STARTED []]) address ident) of
           Inl x \<Rightarrow> fst (async_locate_spas E address ident m) = Inl (Raised x)
         | Inr spas \<Rightarrow> fst (async_locate_spas E address ident m) = Inr (Some spas)
             \<and> spa_descriptors (snd (async_locate_spas E address ident m)) = Some spas"
    by (intro async_locate_spas_quiet_handler) simp
qed

lemma fresh_simps:
  "calls fresh = []" "spa_state fresh = IDLE" "facade fresh = None" "spa fresh = None"
  "spa_descriptors fresh = None" "spa_identifier fresh = None" "spa_address fresh = None"
  by (simp_all add: fresh_def init_def normalize_hint_def)

theorem locate_emits_started_and_finished_witness:
  "fst (async_locate_spas failing_locator_env None None fresh) = Inl (Raised ''OSError'')
   \<and> spa_state (snd (async_locate_spas failing_locator_env None None fresh)) = IDLE
   \<and> new_calls fresh (snd (async_locate_spas failing_locator_env None None fresh)) =
       [Handler LOCATING_STARTED [], Discover None None,
        Handler LOCATING_FINISHED [(''spa_descriptors'', PyNone)]]"
proof -
  have q: "\<forall>l e k. handle_event failing_locator_env l e k = None"
    by (simp add: failing_locator_env_def quiet_env_def)
  have n: "new_calls fresh (snd (async_locate_spas failing_locator_env None None fresh)) =
       [Handler LOCATING_STARTED [], Discover None None,
        Handler LOCATING_FINISHED [(''spa_descriptors'', PyNone)]]"
    by (simp add: async_locate_spas_def locate_try_def private_handle_event_def Let_def
        failing_locator_env_def quiet_env_def fresh_simps new_calls_def descriptors_val_def)
  show ?thesis
    using locate_emits_started_and_finished [of fresh failing_locator_env None None] q n
    by (simp add: failing_locator_env_def quiet_env_def fresh_simps)
qed

section \<open>Connecting to a descriptor\<close>

text \<open>
  Without a facade no event leads to \<open>CONNECTED\<close>, and no event creates a facade.
\<close>

lemma facade_pre_process:
  "facade m = None \<Longrightarrow> facade (pre_process ev m) = None"
  by (cases ev) (simp_all add: async_reset_simps)

lemma not_connected_pre_process:
  "facade m = None \<Longrightarrow> spa_state m \<noteq> CONNECTED \<Longrightarrow> spa_state (pre_process ev m) \<noteq> CONNECTED"
  by (cases ev) (simp_all add: async_reset_simps)

lemma no_facade_dispatch_events:
  "facade m = None \<Longrightarrow> spa_state m \<noteq> CONNECTED \<Longrightarrow>
     facade (dispatch_events E evs m) = None \<and> spa_state (dispatch_events E evs m) \<noteq> CONNECTED"
proof (induction evs arbitrary: m)
  case Nil
  then show ?case by simp
next
  case (Cons p evs)
  obtain ev kw where p: "p = (ev, kw)" by (cases p)
  let ?m1 = "snd (private_handle_event E ev kw m)"
  have "facade ?m1 = None" "spa_state ?m1 \<noteq> CONNECTED"
    using Cons.prems
    by (simp_all add: snd_private_handle_event facade_pre_process not_connected_pre_process)
  then show ?case
    using Cons.IH [of ?m1] p by simp
qed

lemma connect_handshake_no_facade:
  assumes "facade m = None"
  shows "facade (snd (connect_handshake E d m)) = None"
    and "spa_state (snd (connect_handshake E d m)) \<noteq> CONNECTED"
proof -
  let ?m1 = "snd (private_handle_event E CONNECTION_STARTED [] m)"
  have m1: "facade ?m1 = None" "spa_state ?m1 = CONNECTING"
    using assms by (simp_all add: snd_private_handle_event)
  let ?s = "GeckoAsyncSpa (client_id ?m1) d"
  let ?m2 = "?m1\<lparr>spa := Some ?s\<rparr>"
  let ?m3 = "?m2\<lparr>calls := calls ?m2 @ [Connect ?s]\<rparr>"
  have "facade ?m3 = None" "spa_state ?m3 \<noteq> CONNECTED"
    using m1 by simp_all
  then have d: "\<And>evs. facade (dispatch_events E evs ?m3) = None
      \<and> spa_state (dispatch_events E evs ?m3) \<noteq> CONNECTED"
    by (rule no_facade_dispatch_events)
  show "facade (snd (connect_handshake E d m)) = None"
    using m1 d by (cases "fst (private_handle_event E CONNECTION_STARTED [] m)")
      (simp_all add: connect_handshake_def split_beta Let_def)
  show "spa_state (snd (connect_handshake E d m)) \<noteq> CONNECTED"
    using m1 d by (cases "fst (private_handle_event E CONNECTION_STARTED [] m)")
      (simp_all add: connect_handshake_def split_beta Let_def)
qed

lemma connect_try_facade:
  assumes "facade m = None"
  shows "facade (snd (connect_try E d m)) \<noteq> None \<longleftrightarrow>
           fst (connect_handshake E d m) = None
           \<and> spa_state (snd (connect_handshake E d m)) = SPA_READY"
    and "spa_state (snd (connect_try E d m)) = spa_state (snd (connect_handshake E d m))"
    and "calls (snd (connect_try E d m)) = calls (snd (connect_handshake E d m))"
  using connect_handshake_no_facade(1) [OF assms, of E d]
  by (cases "fst (connect_handshake E d m)"; simp add: connect_try_def split_beta)+

lemma snd_async_connect_to_spa:
  "facade m = None \<Longrightarrow>
   snd (async_connect_to_spa E d m) =
     snd (private_handle_event E CONNECTION_FINISHED
            [(''facade'', facade_val (facade (snd (connect_try E d m))))]
            (snd (connect_try E d m)))"
  by (simp add: async_connect_to_spa_def split_beta split: sum.splits option.splits)

lemma connection_finished_fields:
  "facade (snd (private_handle_event E CONNECTION_FINISHED kw m)) = facade m"
  "spa_state (snd (private_handle_event E CONNECTION_FINISHED kw m)) =
     (if facade m \<noteq> None then CONNECTED else spa_state m)"
  "calls (snd (private_handle_event E CONNECTION_FINISHED kw m)) =
     calls m @ [Handler CONNECTION_FINISHED kw]"
  by (simp_all add: snd_private_handle_event)

text \<open>
  C4.  A connection-finished event sets the state to \<open>CONNECTED\<close> when a facade exists
  at that moment and leaves the state as it is otherwise.  When \<open>async_connect_to_spa\<close>
  starts without a facade, it ends with a facade if and only if the handshake returned
  without an exception and the state was \<open>SPA_READY\<close> at that moment; it ends in state
  \<open>CONNECTED\<close> if and only if it ends with a facade; and its last call forwards the
  connection-finished event carrying that facade (or \<open>None\<close>).
\<close>

theorem connection_finished_needs_facade:
  "spa_state (snd (private_handle_event E CONNECTION_FINISHED kw m)) =
      (if facade m \<noteq> None then CONNECTED else spa_state m)
   \<and> (facade m = None \<longrightarrow>
        (facade (snd (async_connect_to_spa E d m)) \<noteq> None \<longleftrightarrow>
           fst (connect_handshake E d m) = None
           \<and> spa_state (snd (connect_handshake E d m)) = SPA_READY)
        \<and> (spa_state (snd (async_connect_to_spa E d m)) = CONNECTED \<longleftrightarrow>
             facade (snd (async_connect_to_spa E d m)) \<noteq> None)
        \<and> last (calls (snd (async_connect_to_spa E d m))) =
            Handler CONNECTION_FINISHED
              [(''facade'', facade_val (facade (snd (async_connect_to_spa E d m))))])"
proof (intro conjI impI)
  show "spa_state (snd (private_handle_event E CONNECTION_FINISHED kw m)) =
      (if facade m \<noteq> None then CONNECTED else spa_state m)"
    by (rule connection_finished_fields)
next
  assume nf: "facade m = None"
  let ?m' = "snd (async_connect_to_spa E d m)"
  have f: "facade ?m' = facade (snd (connect_try E d m))"
    by (simp add: snd_async_connect_to_spa [OF nf] connection_finished_fields)
  show "facade ?m' \<noteq> None \<longleftrightarrow>
           fst (connect_handshake E d m) = None
           \<and> spa_state (snd (connect_handshake E d m)) = SPA_READY"
    using connect_try_facade(1) [OF nf, of E d] f by simp
  have "spa_state (snd (connect_try E d m)) \<noteq> CONNECTED"
    using connect_try_facade(2) [OF nf] connect_handshake_no_facade(2) [OF nf] by simp
  then show "spa_state ?m' = CONNECTED \<longleftrightarrow> facade ?m' \<noteq> None"
    by (simp add: snd_async_connect_to_spa [OF nf] connection_finished_fields)
  show "last (calls ?m') = Handler CONNECTION_FINISHED [(''facade'', facade_val (facade ?m'))]"
    by (simp add: f) (simp add: snd_async_connect_to_spa [OF nf] connection_finished_fields)
qed

lemma quiet_connect_fresh:
  "async_connect_to_spa quiet_env my_spa fresh =
     (Inr (Some (GeckoAsyncFacade (Some (GeckoAsyncSpa ''IOS02ab'' my_spa)))),
      fresh\<lparr>facade := Some (GeckoAsyncFacade (Some (GeckoAsyncSpa ''IOS02ab'' my_spa))),
            spa := Some (GeckoAsyncSpa ''IOS02ab'' my_spa),
            spa_state := CONNECTED,
            status_line := Some (CONNECTED, CONNECTION_FINISHED),
            calls := [Handler CONNECTION_STARTED [],
                      Connect (GeckoAsyncSpa ''IOS02ab'' my_spa),
                      Handler CONNECTION_SPA_COMPLETE [],
                      Handler CONNECTION_FINISHED
                        [(''facade'', PyFacade (GeckoAsyncFacade (Some (GeckoAsyncSpa ''IOS02ab'' my_spa))))]]\<rparr>)"
  by (simp add: async_connect_to_spa_def connect_try_def connect_handshake_def
      private_handle_event_def quiet_env_def Let_def fresh_def init_def normalize_hint_def
      facade_val_def)

theorem connection_finished_needs_facade_witness:
  "facade fresh = None
   \<and> facade (snd (async_connect_to_spa quiet_env my_spa fresh)) =
       Some (GeckoAsyncFacade (Some (GeckoAsyncSpa ''IOS02ab'' my_spa)))
   \<and> spa_state (snd (connect_handshake quiet_env my_spa fresh)) = SPA_READY
   \<and> spa_state (snd (async_connect_to_spa quiet_env my_spa fresh)) = CONNECTED"
proof -
  have nf: "facade fresh = None" by (simp add: fresh_simps)
  have f: "facade (snd (async_connect_to_spa quiet_env my_spa fresh)) =
       Some (GeckoAsyncFacade (Some (GeckoAsyncSpa ''IOS02ab'' my_spa)))"
    by (simp add: quiet_connect_fresh)
  show ?thesis
    using connection_finished_needs_facade [of quiet_env "[]" fresh my_spa] nf f by simp
qed

text \<open>The handler and the collaborators raise their own exceptions, never the manager's
  assertion.\<close>

lemma private_handle_event_no_assertion:
  "fst (private_handle_event E ev kw m) \<noteq> Inl (AssertionError c)"
  by (simp add: fst_private_handle_event split: option.splits)

lemma connect_handshake_no_assertion:
  "fst (connect_handshake E d m) \<noteq> Some (AssertionError c)"
proof (cases "fst (private_handle_event E CONNECTION_STARTED [] m)")
  case (Inl e)
  then show ?thesis
    using private_handle_event_no_assertion [of E CONNECTION_STARTED "[]" m c]
    by (simp add: connect_handshake_def split_beta)
next
  case (Inr u)
  then show ?thesis
    by (auto simp: connect_handshake_def split_beta Let_def)
qed

lemma connect_try_no_assertion:
  "fst (connect_try E d m) \<noteq> Some (AssertionError c)"
  using connect_handshake_no_assertion [of E d m c]
  by (cases "fst (connect_handshake E d m)") (simp_all add: connect_try_def split_beta)

lemma async_connect_to_spa_no_assertion:
  assumes "facade m = None"
  shows "fst (async_connect_to_spa E d m) \<noteq> Inl (AssertionError c)"
proof -
  let ?m1 = "snd (connect_try E d m)"
  let ?fin = "private_handle_event E CONNECTION_FINISHED [(''facade'', facade_val (facade ?m1))] ?m1"
  show ?thesis
  proof (cases "fst ?fin")
    case (Inl e)
    then show ?thesis
      using assms private_handle_event_no_assertion
          [of E CONNECTION_FINISHED "[(''facade'', facade_val (facade ?m1))]" ?m1 c]
      by (auto simp: async_connect_to_spa_def split_beta)
  next
    case (Inr u)
    then show ?thesis
      using assms connect_try_no_assertion [of E d m c]
      by (cases "fst (connect_try E d m)") (simp_all add: async_connect_to_spa_def split_beta)
  qed
qed

text \<open>
  C9.  \<open>async_connect_to_spa\<close> called while a facade exists fails its assertion at once:
  it raises \<open>AssertionError\<close> and leaves the manager untouched (no event, no error
  state).  Called without a facade, it never raises the manager's assertion.
\<close>

theorem connect_asserts_no_facade:
  "(facade m \<noteq> None \<longrightarrow>
      async_connect_to_spa E d m = (Inl (AssertionError ''self._facade is None''), m))
   \<and> (facade m = None \<longrightarrow> (\<forall>c. fst (async_connect_to_spa E d m) \<noteq> Inl (AssertionError c)))"
proof (intro conjI impI allI)
  assume "facade m \<noteq> None"
  then show "async_connect_to_spa E d m = (Inl (AssertionError ''self._facade is None''), m)"
    by (simp add: async_connect_to_spa_def)
next
  fix c
  assume "facade m = None"
  then show "fst (async_connect_to_spa E d m) \<noteq> Inl (AssertionError c)"
    by (rule async_connect_to_spa_no_assertion)
qed

theorem connect_asserts_no_facade_witness:
  "facade (snd (async_connect_to_spa quiet_env my_spa fresh)) \<noteq> None
   \<and> async_connect_to_spa quiet_env my_spa (snd (async_connect_to_spa quiet_env my_spa fresh)) =
       (Inl (AssertionError ''self._facade is None''), snd (async_connect_to_spa quiet_env my_spa fresh))
   \<and> facade fresh = None
   \<and> fst (async_connect_to_spa quiet_env my_spa fresh) \<noteq> Inl (AssertionError ''self._facade is None'')"
proof -
  have a: "facade (snd (async_connect_to_spa quiet_env my_spa fresh)) \<noteq> None"
    by (simp add: quiet_connect_fresh)
  have b: "facade fresh = None" by (simp add: fresh_simps)
  show ?thesis
    using connect_asserts_no_facade [of "snd (async_connect_to_spa quiet_env my_spa fresh)" quiet_env my_spa]
      connect_asserts_no_facade [of fresh quiet_env my_spa] a b
    by blast
qed

section \<open>Connecting by identifier\<close>



































text \<open>A handler that makes no call of its own is the observer of the first part.\<close>

lemma no_reentry_private_handle_event:
  "r_private_handle_event E no_reentry = private_handle_event E"
  by (intro ext)
    (simp add: r_private_handle_event_def private_handle_event_def no_reentry_def Let_def)

lemma no_reentry_dispatch_events:
  "r_dispatch_events E no_reentry = dispatch_events E"
proof (intro ext)
  fix evs m
  show "r_dispatch_events E no_reentry evs m = dispatch_events E evs m"
  proof (induction evs arbitrary: m)
    case Nil
    then show ?case by simp
  next
    case (Cons p evs)
    obtain ev kw where p: "p = (ev, kw)" by (cases p)
    show ?case
      by (simp add: p Cons.IH no_reentry_private_handle_event)
  qed
qed

lemma no_reentry_async_locate_spas:
  "r_async_locate_spas E no_reentry = async_locate_spas E"
  unfolding r_async_locate_spas_def [abs_def] async_locate_spas_def [abs_def]
    r_locate_try_def [abs_def] locate_try_def [abs_def]
    no_reentry_private_handle_event no_reentry_dispatch_events
  by (rule refl)

lemma no_reentry_async_connect_to_spa:
  "r_async_connect_to_spa E no_reentry = async_connect_to_spa E"
  unfolding r_async_connect_to_spa_def [abs_def] async_connect_to_spa_def [abs_def]
    r_connect_try_def [abs_def] connect_try_def [abs_def]
    r_connect_handshake_def [abs_def] connect_handshake_def [abs_def]
    no_reentry_private_handle_event no_reentry_dispatch_events
  by (rule refl)

lemma no_reentry_async_connect:
  "r_async_connect E no_reentry = async_connect E"
  unfolding r_async_connect_def [abs_def] async_connect_def [abs_def]
    no_reentry_private_handle_event no_reentry_async_locate_spas
    no_reentry_async_connect_to_spa
  by (rule refl)

end
